theory Spec2Isabelle
  imports Main "HOL-Library.Word"
begin

section \<open>Data model of package client\<close>

text \<open>
  The embedding follows \<^verbatim>\<open>client/client.go\<close>. A Go value of type
  \<^verbatim>\<open>interface{}\<close> is a value tagged with its dynamic type; the constructors below
  are the dynamic types a YAML or JSON decoder produces, plus a pointer to a variable of
  the caller (the \<^verbatim>\<open>data\<close> argument of \<^verbatim>\<open>GetConfig\<close>). Go's
  \<^verbatim>\<open>int\<close> is taken at 64 bits, and a \<^verbatim>\<open>float64\<close> is its IEEE-754 bit pattern:
  the code never computes with either, it only tests the dynamic type.
\<close>

type_synonym addr = nat
type_synonym go_int = "64 word"
type_synonym float64 = "64 word"

datatype any_value =
    VNil
  | VBool bool
  | VInt go_int
  | VInt64 "64 word"
  | VUint64 "64 word"
  | VFloat64 float64
  | VString string
  | VSlice "any_value list"
  | VMap "(string \<times> any_value) list"
  | Ptr addr

text \<open>\<^verbatim>\<open>errors.New(msg)\<close>, and the errors of the backend and of the YAML library.\<close>

datatype error = Error string

text \<open>
  The Go runtime's panics that the code can reach: reading a field through a nil
  \<^verbatim>\<open>*Client\<close> ("invalid memory address or nil pointer dereference"), and
  \<^verbatim>\<open>time.NewTicker\<close> on a duration that is not positive.
\<close>

datatype panic = NilPointerDereference | NonPositiveTickerInterval

text \<open>
  The interface \<^verbatim>\<open>source.Repository\<close> is declared in another package; the client
  uses its two methods only, which are parameters here. The state of a backend is of an
  arbitrary type \<open>'r\<close>; \<open>Refresh\<close> returns the error (if any) and the backend's new state,
  \<open>GetData\<close> returns Go's pair of the value and the found flag.
\<close>

record 'r Repository_ops =
  Refresh :: "'r \<Rightarrow> error option \<times> 'r"
  GetData :: "'r \<Rightarrow> string \<Rightarrow> any_value \<times> bool"

text \<open>
  A context is the chain of cancellable contexts it was derived through, youngest first
  (\<^verbatim>\<open>context.Background()\<close> is the empty chain); it is done as soon as one of them has
  been cancelled.
\<close>

type_synonym ctx_id = nat
type_synonym ctx = "ctx_id list"

text \<open>
  The struct \<^verbatim>\<open>Client\<close>. Its backend is reached through the client only, so the
  field \<open>Repository\<close> holds the backend's state itself; the goroutine and the accessors
  share it through the \<^verbatim>\<open>*Client\<close>. \<open>cancel\<close> is the cancel function of the
  context made for the client, named by the context it cancels. \<open>RefreshInterval\<close> is a
  \<^verbatim>\<open>time.Duration\<close>, a number of nanoseconds; the code passes it on and computes
  nothing with it.
\<close>

record 'r Client =
  Repository :: 'r
  RefreshInterval :: int
  isClosed :: bool
  cancel :: ctx_id

text \<open>
  A \<^verbatim>\<open>time.Ticker\<close>: its period, and whether \<^verbatim>\<open>Stop\<close> has been called on it
  (the documentation of \<^verbatim>\<open>time.NewTicker\<close>: "Stop the ticker to release associated
  resources").
\<close>

record ticker =
  period :: int
  stopped :: bool

text \<open>
  A goroutine running \<^verbatim>\<open>refresh(ctx, client)\<close>: it is blocked in the \<^verbatim>\<open>select\<close>,
  has returned, or has panicked in \<^verbatim>\<open>time.NewTicker\<close>.
\<close>

datatype gstatus = AtSelect | Returned | Panicked panic

record goroutine =
  g_ctx :: ctx
  g_client :: addr
  g_ticker :: "ticker option"
  g_status :: gstatus

text \<open>
  The state of the process: the package variable \<^verbatim>\<open>defaultClient\<close> (\<open>None\<close> is nil),
  the allocated \<^verbatim>\<open>Client\<close> structs (a \<^verbatim>\<open>*Client\<close> is an index into the list), the
  contexts cancelled so far, the goroutines started so far and what logrus was given.
\<close>

record 'r world =
  defaultClient :: "addr option"
  heap :: "'r Client list"
  cancelled :: "ctx_id list"
  next_ctx :: ctx_id
  goroutines :: "goroutine list"
  log :: "(string \<times> error) list"

definition init_world :: "'r world" where
  "init_world = \<lparr>defaultClient = None, heap = [], cancelled = [], next_ctx = 0,
     goroutines = [], log = []\<rparr>"

text \<open>
  Reading a field through a \<^verbatim>\<open>*Client\<close>. Go is garbage collected, so a non-nil pointer
  always refers to an allocated struct; an address outside the heap stands for no Go
  pointer and is treated like nil.
\<close>

definition deref :: "'r world \<Rightarrow> addr option \<Rightarrow> panic + 'r Client" where
  "deref w c =
     (case c of
        None \<Rightarrow> Inl NilPointerDereference
      | Some a \<Rightarrow> if a < length (heap w) then Inr (heap w ! a) else Inl NilPointerDereference)"

section \<open>Typed accessors: the methods of Client\<close>

definition Client_GetConfigString ::
  "'r Repository_ops \<Rightarrow> 'r world \<Rightarrow> addr option \<Rightarrow> string \<Rightarrow> string
     \<Rightarrow> panic + (string \<times> error option)" where
  "Client_GetConfigString ops w c name defaultValue =
     (case deref w c of
        Inl p \<Rightarrow> Inl p
      | Inr cl \<Rightarrow>
          if isClosed cl then Inr (defaultValue, Some (Error ''client is closed''))
          else (case GetData ops (Repository cl) name of
                  (config, ok) \<Rightarrow>
                    if \<not> ok then Inr (defaultValue, Some (Error ''config not found''))
                    else (case config of
                            VString configString \<Rightarrow> Inr (configString, None)
                          | _ \<Rightarrow> Inr (defaultValue, Some (Error ''config is not a string'')))))"

definition Client_GetConfigInt ::
  "'r Repository_ops \<Rightarrow> 'r world \<Rightarrow> addr option \<Rightarrow> string \<Rightarrow> go_int
     \<Rightarrow> panic + (go_int \<times> error option)" where
  "Client_GetConfigInt ops w c name defaultValue =
     (case deref w c of
        Inl p \<Rightarrow> Inl p
      | Inr cl \<Rightarrow>
          if isClosed cl then Inr (defaultValue, Some (Error ''client is closed''))
          else (case GetData ops (Repository cl) name of
                  (config, ok) \<Rightarrow>
                    if \<not> ok then Inr (defaultValue, Some (Error ''config not found''))
                    else (case config of
                            VInt configInt \<Rightarrow> Inr (configInt, None)
                          | _ \<Rightarrow> Inr (defaultValue, Some (Error ''config is not an int64'')))))"

definition Client_GetConfigFloat ::
  "'r Repository_ops \<Rightarrow> 'r world \<Rightarrow> addr option \<Rightarrow> string \<Rightarrow> float64
     \<Rightarrow> panic + (float64 \<times> error option)" where
  "Client_GetConfigFloat ops w c name defaultValue =
     (case deref w c of
        Inl p \<Rightarrow> Inl p
      | Inr cl \<Rightarrow>
          if isClosed cl then Inr (defaultValue, Some (Error ''client is closed''))
          else (case GetData ops (Repository cl) name of
                  (config, ok) \<Rightarrow>
                    if \<not> ok then Inr (defaultValue, Some (Error ''config not found''))
                    else (case config of
                            VFloat64 configInt \<Rightarrow> Inr (configInt, None)
                          | _ \<Rightarrow> Inr (defaultValue, Some (Error ''config is not an int64'')))))"

text \<open>
  The loop of \<^verbatim>\<open>GetConfigArrayOfStrings\<close> over \<^verbatim>\<open>configArray\<close>: \<open>output\<close> is
  the slice built so far; an element that is not a string returns from the whole method.
\<close>

fun strings_loop ::
  "any_value list \<Rightarrow> string list \<Rightarrow> string list \<Rightarrow> string list \<times> error option" where
  "strings_loop [] output defaultValue = (output, None)"
| "strings_loop (v # vs) output defaultValue =
     (case v of
        VString str \<Rightarrow> strings_loop vs (output @ [str]) defaultValue
      | _ \<Rightarrow> (defaultValue, Some (Error ''config is not an array of strings'')))"

definition Client_GetConfigArrayOfStrings ::
  "'r Repository_ops \<Rightarrow> 'r world \<Rightarrow> addr option \<Rightarrow> string \<Rightarrow> string list
     \<Rightarrow> panic + (string list \<times> error option)" where
  "Client_GetConfigArrayOfStrings ops w c name defaultValue =
     (case deref w c of
        Inl p \<Rightarrow> Inl p
      | Inr cl \<Rightarrow>
          if isClosed cl then Inr (defaultValue, Some (Error ''client is closed''))
          else (case GetData ops (Repository cl) name of
                  (config, ok) \<Rightarrow>
                    if \<not> ok then Inr (defaultValue, Some (Error ''config not found''))
                    else (case config of
                            VSlice configArray \<Rightarrow> Inr (strings_loop configArray [] defaultValue)
                          | _ \<Rightarrow> Inr (defaultValue,
                                     Some (Error ''config is not an array of strings'')))))"

text \<open>
  \<^verbatim>\<open>yaml.Marshal\<close> and \<^verbatim>\<open>yaml.Unmarshal\<close> belong to the library
  \<^verbatim>\<open>gopkg.in/yaml.v3\<close> and are parameters. \<open>'b\<close> is the type of serialised
  documents. \<open>Unmarshal\<close> is given the document, the interface value \<^verbatim>\<open>out\<close> and
  the variables of the caller (a pointer is an index into the list), and returns its
  error and the variables as it leaves them: whatever it writes, it writes through
  \<^verbatim>\<open>out\<close>.
\<close>

type_synonym mem = "any_value list"

record 'b yaml =
  Marshal :: "any_value \<Rightarrow> 'b \<times> error option"
  Unmarshal :: "'b \<Rightarrow> any_value \<Rightarrow> mem \<Rightarrow> error option \<times> mem"

text \<open>
  \<^verbatim>\<open>GetConfig\<close> returns an error only. The parameter \<^verbatim>\<open>data\<close> is a local variable
  of the method: the statement \<^verbatim>\<open>data = defaultValue\<close> rebinds it (the \<open>let\<close> below,
  whose variable nothing reads afterwards) and writes nothing to the caller's variables \<open>m\<close>.
\<close>

definition Client_GetConfig ::
  "'r Repository_ops \<Rightarrow> 'b yaml \<Rightarrow> 'r world \<Rightarrow> addr option \<Rightarrow> string \<Rightarrow> any_value
     \<Rightarrow> any_value \<Rightarrow> mem \<Rightarrow> panic + (error option \<times> mem)" where
  "Client_GetConfig ops y w c name data defaultValue m =
     (case deref w c of
        Inl p \<Rightarrow> Inl p
      | Inr cl \<Rightarrow>
          if isClosed cl then
            (let data = defaultValue in Inr (Some (Error ''client is closed''), m))
          else (case GetData ops (Repository cl) name of
                  (config, ok) \<Rightarrow>
                    if \<not> ok then
                      (let data = defaultValue in Inr (Some (Error ''config not found''), m))
                    else (case Marshal y config of
                            (marshal, Some err) \<Rightarrow>
                              (let data = defaultValue in Inr (Some err, m))
                          | (marshal, None) \<Rightarrow>
                              (case Unmarshal y marshal data m of
                                 (Some err, m') \<Rightarrow>
                                   (let data = defaultValue in Inr (Some err, m'))
                               | (None, m') \<Rightarrow> Inr (None, m')))))"

section \<open>Contexts, construction, the refresh goroutine and Close\<close>

definition WithCancel :: "'r world \<Rightarrow> ctx \<Rightarrow> ctx \<times> ctx_id \<times> 'r world" where
  "WithCancel w parent = (next_ctx w # parent, next_ctx w, w\<lparr>next_ctx := Suc (next_ctx w)\<rparr>)"

text \<open>Calling a \<^verbatim>\<open>context.CancelFunc\<close>; a second call changes nothing.\<close>

definition call_cancel :: "'r world \<Rightarrow> ctx_id \<Rightarrow> 'r world" where
  "call_cancel w f = w\<lparr>cancelled := List.insert f (cancelled w)\<rparr>"

text \<open>Whether the channel \<^verbatim>\<open>ctx.Done()\<close> is closed.\<close>

definition ctx_Done :: "'r world \<Rightarrow> ctx \<Rightarrow> bool" where
  "ctx_Done w c = list_ex (\<lambda>i. i \<in> set (cancelled w)) c"

text \<open>\<^verbatim>\<open>client.Repository.Refresh()\<close> through the pointer \<open>a\<close>.\<close>

definition Repository_Refresh ::
  "'r Repository_ops \<Rightarrow> 'r world \<Rightarrow> addr \<Rightarrow> error option \<times> 'r world" where
  "Repository_Refresh ops w a =
     (case Refresh ops (Repository (heap w ! a)) of
        (err, r') \<Rightarrow> (err, w\<lparr>heap := (heap w)[a := (heap w ! a)\<lparr>Repository := r'\<rparr>]\<rparr>))"

text \<open>\<^verbatim>\<open>logrus.WithError(err).Error(msg)\<close>\<close>

definition logrus_Error :: "'r world \<Rightarrow> error \<Rightarrow> string \<Rightarrow> 'r world" where
  "logrus_Error w err msg = w\<lparr>log := log w @ [(msg, err)]\<rparr>"

text \<open>
  \<^verbatim>\<open>go refresh(ctx, client)\<close>: the new goroutine, run up to its first \<^verbatim>\<open>select\<close>.
  \<^verbatim>\<open>time.NewTicker\<close> panics on a duration that is not positive. The function
  \<^verbatim>\<open>refresh\<close> has no call of \<^verbatim>\<open>ticker.Stop\<close>, so the ticker's \<open>stopped\<close> field
  is written here only. A panic of a goroutine ends a Go process; here it is the final
  status of the goroutine, and what \<^verbatim>\<open>NewClient\<close> returns beside it is what it
  returns when it gets to return first.
\<close>

definition spawn_refresh :: "'r world \<Rightarrow> ctx \<Rightarrow> addr \<Rightarrow> goroutine" where
  "spawn_refresh w c client =
     (case deref w (Some client) of
        Inl p \<Rightarrow> \<lparr>g_ctx = c, g_client = client, g_ticker = None, g_status = Panicked p\<rparr>
      | Inr cl \<Rightarrow>
          if RefreshInterval cl \<le> 0 then
            \<lparr>g_ctx = c, g_client = client, g_ticker = None,
             g_status = Panicked NonPositiveTickerInterval\<rparr>
          else
            \<lparr>g_ctx = c, g_client = client,
             g_ticker = Some \<lparr>period = RefreshInterval cl, stopped = False\<rparr>,
             g_status = AtSelect\<rparr>)"

text \<open>
  One \<^verbatim>\<open>select\<close> of goroutine \<open>i\<close>, taking the case \<open>sc\<close>. The case
  \<^verbatim>\<open><-ctx.Done()\<close> can be taken only when the context is done; until then the goroutine
  stays blocked. A goroutine that has returned or panicked takes no step.
\<close>

datatype select_case = TickerC | CtxDone

definition refresh_select ::
  "'r Repository_ops \<Rightarrow> nat \<Rightarrow> select_case \<Rightarrow> 'r world \<Rightarrow> 'r world" where
  "refresh_select ops i sc w =
     (if i < length (goroutines w) then
        (let g = goroutines w ! i in
         if g_status g \<noteq> AtSelect then w
         else (case sc of
                 TickerC \<Rightarrow>
                   (case deref w (Some (g_client g)) of
                      Inl p \<Rightarrow> w\<lparr>goroutines := (goroutines w)[i := g\<lparr>g_status := Panicked p\<rparr>]\<rparr>
                    | Inr cl \<Rightarrow>
                        (case Repository_Refresh ops w (g_client g) of
                           (Some err, w1) \<Rightarrow> logrus_Error w1 err ''error refreshing repository''
                         | (None, w1) \<Rightarrow> w1))
               | CtxDone \<Rightarrow>
                   if ctx_Done w (g_ctx g)
                   then w\<lparr>goroutines := (goroutines w)[i := g\<lparr>g_status := Returned\<rparr>]\<rparr>
                   else w))
      else w)"

text \<open>The goroutine \<open>i\<close> going through the \<^verbatim>\<open>select\<close> cases \<open>scs\<close>, in this order.\<close>

definition refresh_run ::
  "'r Repository_ops \<Rightarrow> nat \<Rightarrow> select_case list \<Rightarrow> 'r world \<Rightarrow> 'r world" where
  "refresh_run ops i scs w = fold (refresh_select ops i) scs w"

text \<open>
  \<^verbatim>\<open>NewClient\<close> returns Go's pair \<^verbatim>\<open>(*Client, error)\<close> and the new state of the
  process. The struct is allocated before the first \<^verbatim>\<open>Refresh\<close>, as in the source; on
  the error path nothing refers to it afterwards.
\<close>

definition NewClient ::
  "'r Repository_ops \<Rightarrow> 'r world \<Rightarrow> ctx \<Rightarrow> 'r \<Rightarrow> int
     \<Rightarrow> 'r world \<times> (addr option \<times> error option)" where
  "NewClient ops w0 ctx0 repository refreshInterval =
     (case WithCancel w0 ctx0 of
        (c, cancel', w1) \<Rightarrow>
          (let client = length (heap w1);
               w2 = w1\<lparr>heap := heap w1 @
                      [\<lparr>Repository = repository, RefreshInterval = refreshInterval,
                        isClosed = False, cancel = cancel'\<rparr>]\<rparr>
           in case Repository_Refresh ops w2 client of
                (Some err, w3) \<Rightarrow>
                  (logrus_Error w3 err ''error refreshing repository'', (None, Some err))
              | (None, w3) \<Rightarrow>
                  (w3\<lparr>goroutines := goroutines w3 @ [spawn_refresh w3 c client],
                      defaultClient := Some client\<rparr>,
                   (Some client, None))))"

definition Close :: "'r world \<Rightarrow> addr option \<Rightarrow> panic + 'r world" where
  "Close w c =
     (case c of
        None \<Rightarrow> Inl NilPointerDereference
      | Some a \<Rightarrow>
          if a < length (heap w) then
            (let w1 = call_cancel w (cancel (heap w ! a))
             in Inr (w1\<lparr>heap := (heap w1)[a := (heap w1 ! a)\<lparr>isClosed := True\<rparr>]\<rparr>))
          else Inl NilPointerDereference)"

section \<open>The package-level accessors\<close>

definition GetConfig ::
  "'r Repository_ops \<Rightarrow> 'b yaml \<Rightarrow> 'r world \<Rightarrow> string \<Rightarrow> any_value \<Rightarrow> any_value \<Rightarrow> mem
     \<Rightarrow> panic + (error option \<times> mem)" where
  "GetConfig ops y w name data defaultValue m =
     Client_GetConfig ops y w (defaultClient w) name data defaultValue m"

definition GetConfigArrayOfStrings ::
  "'r Repository_ops \<Rightarrow> 'r world \<Rightarrow> string \<Rightarrow> string list
     \<Rightarrow> panic + (string list \<times> error option)" where
  "GetConfigArrayOfStrings ops w name defaultValue =
     Client_GetConfigArrayOfStrings ops w (defaultClient w) name defaultValue"

definition GetConfigString ::
  "'r Repository_ops \<Rightarrow> 'r world \<Rightarrow> string \<Rightarrow> string \<Rightarrow> panic + (string \<times> error option)" where
  "GetConfigString ops w name defaultValue =
     Client_GetConfigString ops w (defaultClient w) name defaultValue"

definition GetConfigInt ::
  "'r Repository_ops \<Rightarrow> 'r world \<Rightarrow> string \<Rightarrow> go_int \<Rightarrow> panic + (go_int \<times> error option)" where
  "GetConfigInt ops w name defaultValue =
     Client_GetConfigInt ops w (defaultClient w) name defaultValue"

definition GetConfigFloat ::
  "'r Repository_ops \<Rightarrow> 'r world \<Rightarrow> string \<Rightarrow> float64 \<Rightarrow> panic + (float64 \<times> error option)" where
  "GetConfigFloat ops w name defaultValue =
     Client_GetConfigFloat ops w (defaultClient w) name defaultValue"

section \<open>Stub backends and a stub YAML library\<close>

text \<open>
  A backend for tests: its state is the number of \<open>Refresh\<close> calls made so far and a
  snapshot; the call number \<open>n\<close> fails when \<open>fails n\<close>, and never touches the snapshot.
\<close>

definition stub_GetData :: "(string \<times> any_value) list \<Rightarrow> string \<Rightarrow> any_value \<times> bool" where
  "stub_GetData d name = (case map_of d name of None \<Rightarrow> (VNil, False) | Some v \<Rightarrow> (v, True))"

definition stub_ops ::
  "(nat \<Rightarrow> bool) \<Rightarrow> (nat \<times> (string \<times> any_value) list) Repository_ops" where
  "stub_ops fails =
     \<lparr>Refresh = (\<lambda>(n, d). (if fails n then Some (Error ''refresh failed'') else None, (Suc n, d))),
      GetData = (\<lambda>(n, d). stub_GetData d)\<rparr>"

definition demo_snapshot :: "(string \<times> any_value) list" where
  "demo_snapshot =
     [(''name'', VString ''svc''),
      (''port'', VInt 8080),
      (''ratio'', VFloat64 0x4000000000000000),
      (''tags'', VSlice [VString ''a'', VString ''b'']),
      (''mixed'', VSlice [VString ''a'', VString ''b'', VInt 3]),
      (''limits'', VMap [(''a'', VInt 1), (''b'', VString ''x'')])]"

text \<open>
  A backend that never fails, one whose first \<open>Refresh\<close> succeeds and all later ones
  fail, and one whose first \<open>Refresh\<close> fails.
\<close>

definition good_ops :: "(nat \<times> (string \<times> any_value) list) Repository_ops" where
  "good_ops = stub_ops (\<lambda>n. False)"

definition flaky_ops :: "(nat \<times> (string \<times> any_value) list) Repository_ops" where
  "flaky_ops = stub_ops (\<lambda>n. 0 < n)"

definition broken_ops :: "(nat \<times> (string \<times> any_value) list) Repository_ops" where
  "broken_ops = stub_ops (\<lambda>n. n = 0)"

text \<open>The process after one successful \<^verbatim>\<open>NewClient\<close>, and after \<^verbatim>\<open>Close\<close> on that client.\<close>

definition open_world :: "(nat \<times> (string \<times> any_value) list) world" where
  "open_world = fst (NewClient good_ops init_world [] (0, demo_snapshot) 10)"

definition closed_world :: "(nat \<times> (string \<times> any_value) list) world" where
  "closed_world = (case Close open_world (Some 0) of Inr w \<Rightarrow> w | Inl p \<Rightarrow> open_world)"

text \<open>
  A stand-in for the YAML library with the behaviour yaml.v3 documents for a
  \<^verbatim>\<open>TypeError\<close> ("the value is still unmarshaled partially"): the document is the value
  itself, and decoding a mapping into a struct of integer fields (a \<open>VMap\<close> of \<open>VInt\<close>s)
  assigns every field whose document value is an integer, leaves the others, and reports
  an error if one of them could not be decoded.
\<close>

fun decode_fields ::
  "(string \<times> any_value) list \<Rightarrow> (string \<times> any_value) list
     \<Rightarrow> (string \<times> any_value) list \<times> bool" where
  "decode_fields doc [] = ([], False)"
| "decode_fields doc ((k, old) # fs) =
     (case decode_fields doc fs of
        (fs', bad) \<Rightarrow>
          (case map_of doc k of
             None \<Rightarrow> ((k, old) # fs', bad)
           | Some (VInt i) \<Rightarrow> ((k, VInt i) # fs', bad)
           | Some _ \<Rightarrow> ((k, old) # fs', True)))"

definition stub_Unmarshal :: "any_value \<Rightarrow> any_value \<Rightarrow> mem \<Rightarrow> error option \<times> mem" where
  "stub_Unmarshal doc out m =
     (case out of
        Ptr a \<Rightarrow>
          (if a < length m then
             (case doc of
                VMap d \<Rightarrow>
                  (case m ! a of
                     VMap fs \<Rightarrow>
                       (case decode_fields d fs of
                          (fs', bad) \<Rightarrow>
                            (if bad then Some (Error ''yaml: unmarshal errors'') else None,
                             m[a := VMap fs']))
                   | _ \<Rightarrow> (Some (Error ''yaml: unmarshal errors''), m))
              | _ \<Rightarrow> (Some (Error ''yaml: unmarshal errors''), m))
           else (Some (Error ''yaml: unmarshal errors''), m))
      | _ \<Rightarrow> (Some (Error ''yaml: unmarshal errors''), m))"

definition stub_yaml :: "any_value yaml" where
  "stub_yaml = \<lparr>Marshal = (\<lambda>v. (v, None)), Unmarshal = stub_Unmarshal\<rparr>"

section \<open>Auxiliary facts\<close>

text \<open>\<^verbatim>\<open>NewClient\<close> in one step: what it returns and the state it leaves.\<close>

lemma NewClient_eq:
  "NewClient ops w c r d =
     (case Refresh ops r of
        (Some err, r') \<Rightarrow>
          (w\<lparr>next_ctx := Suc (next_ctx w),
              heap := heap w @
                [\<lparr>Repository = r', RefreshInterval = d, isClosed = False, cancel = next_ctx w\<rparr>],
              log := log w @ [(''error refreshing repository'', err)]\<rparr>,
           (None, Some err))
      | (None, r') \<Rightarrow>
          (w\<lparr>next_ctx := Suc (next_ctx w),
              heap := heap w @
                [\<lparr>Repository = r', RefreshInterval = d, isClosed = False, cancel = next_ctx w\<rparr>],
              goroutines := goroutines w @
                [if d \<le> 0
                 then \<lparr>g_ctx = next_ctx w # c, g_client = length (heap w), g_ticker = None,
                        g_status = Panicked NonPositiveTickerInterval\<rparr>
                 else \<lparr>g_ctx = next_ctx w # c, g_client = length (heap w),
                        g_ticker = Some \<lparr>period = d, stopped = False\<rparr>,
                        g_status = AtSelect\<rparr>],
              defaultClient := Some (length (heap w))\<rparr>,
           (Some (length (heap w)), None)))"
  by (auto simp: NewClient_def WithCancel_def Repository_Refresh_def logrus_Error_def
        spawn_refresh_def deref_def Let_def nth_append split: prod.splits option.splits)

lemma stub_Refresh:
  "Refresh (stub_ops fails) (n, d) =
     (if fails n then Some (Error ''refresh failed'') else None, (Suc n, d))"
  by (simp add: stub_ops_def)

lemma good_GetData: "GetData good_ops (n, d) = stub_GetData d"
  by (simp add: good_ops_def stub_ops_def)

lemma demo_lookups:
  "stub_GetData demo_snapshot ''name'' = (VString ''svc'', True)"
  "stub_GetData demo_snapshot ''port'' = (VInt 8080, True)"
  "stub_GetData demo_snapshot ''ratio'' = (VFloat64 0x4000000000000000, True)"
  "stub_GetData demo_snapshot ''tags'' = (VSlice [VString ''a'', VString ''b''], True)"
  "stub_GetData demo_snapshot ''mixed'' = (VSlice [VString ''a'', VString ''b'', VInt 3], True)"
  "stub_GetData demo_snapshot ''limits'' = (VMap [(''a'', VInt 1), (''b'', VString ''x'')], True)"
  "stub_GetData demo_snapshot ''absent'' = (VNil, False)"
  by (simp_all add: stub_GetData_def demo_snapshot_def)

lemma open_world_eq:
  "open_world =
     \<lparr>defaultClient = Some 0,
      heap = [\<lparr>Repository = (1, demo_snapshot), RefreshInterval = 10, isClosed = False,
               cancel = 0\<rparr>],
      cancelled = [], next_ctx = 1,
      goroutines = [\<lparr>g_ctx = [0], g_client = 0,
                     g_ticker = Some \<lparr>period = 10, stopped = False\<rparr>, g_status = AtSelect\<rparr>],
      log = []\<rparr>"
  by (simp add: open_world_def NewClient_eq good_ops_def stub_ops_def init_world_def)

lemma closed_world_eq:
  "closed_world =
     \<lparr>defaultClient = Some 0,
      heap = [\<lparr>Repository = (1, demo_snapshot), RefreshInterval = 10, isClosed = True,
               cancel = 0\<rparr>],
      cancelled = [0], next_ctx = 1,
      goroutines = [\<lparr>g_ctx = [0], g_client = 0,
                     g_ticker = Some \<lparr>period = 10, stopped = False\<rparr>, g_status = AtSelect\<rparr>],
      log = []\<rparr>"
  by (simp add: closed_world_def open_world_eq Close_def call_cancel_def)

lemma Close_open_world: "Close open_world (Some 0) = Inr closed_world"
  by (simp add: closed_world_eq) (simp add: open_world_eq Close_def call_cancel_def)

lemma deref_open:
  "deref open_world (Some 0) =
     Inr \<lparr>Repository = (1, demo_snapshot), RefreshInterval = 10, isClosed = False, cancel = 0\<rparr>"
  by (simp add: deref_def open_world_eq)

lemma deref_closed:
  "deref closed_world (Some 0) =
     Inr \<lparr>Repository = (1, demo_snapshot), RefreshInterval = 10, isClosed = True, cancel = 0\<rparr>"
  by (simp add: deref_def closed_world_eq)

text \<open>\<^verbatim>\<open>NewClient\<close> allocates, so the clients that exist stay as they are.\<close>

lemma deref_NewClient_failure:
  assumes "fst (Refresh ops r) \<noteq> None"
    and "case p of None \<Rightarrow> True | Some a \<Rightarrow> a < length (heap w)"
  shows "deref (fst (NewClient ops w c r d)) p = deref w p"
  using assms
  by (auto simp: NewClient_eq deref_def nth_append split: prod.splits option.splits)

text \<open>\<^verbatim>\<open>Close\<close> sets the flag of the client it is called on and cancels its context.\<close>

lemma Close_sets_isClosed:
  "Close w (Some a) = Inr w' \<Longrightarrow> \<exists>cl. deref w' (Some a) = Inr cl \<and> isClosed cl"
  by (auto simp: Close_def deref_def call_cancel_def Let_def split: if_splits)

lemma Close_ctx_Done:
  "Close w (Some a) = Inr w' \<Longrightarrow> ctx_Done w' (cancel (heap w ! a) # parent)"
  by (auto simp: Close_def ctx_Done_def call_cancel_def Let_def split: if_splits)

text \<open>The four accessors that return a value, on a closed client and on a missing key.\<close>

lemma closed_scalar_accessors:
  assumes "deref w c = Inr cl" and "isClosed cl"
  shows "Client_GetConfigString ops w c name ds = Inr (ds, Some (Error ''client is closed''))"
    and "Client_GetConfigInt ops w c name di = Inr (di, Some (Error ''client is closed''))"
    and "Client_GetConfigFloat ops w c name df = Inr (df, Some (Error ''client is closed''))"
    and "Client_GetConfigArrayOfStrings ops w c name da =
           Inr (da, Some (Error ''client is closed''))"
  using assms
  by (simp_all add: Client_GetConfigString_def Client_GetConfigInt_def Client_GetConfigFloat_def
        Client_GetConfigArrayOfStrings_def)

lemma not_found_scalar_accessors:
  assumes "deref w c = Inr cl" and "\<not> isClosed cl"
    and "\<not> snd (GetData ops (Repository cl) name)"
  shows "Client_GetConfigString ops w c name ds = Inr (ds, Some (Error ''config not found''))"
    and "Client_GetConfigInt ops w c name di = Inr (di, Some (Error ''config not found''))"
    and "Client_GetConfigFloat ops w c name df = Inr (df, Some (Error ''config not found''))"
    and "Client_GetConfigArrayOfStrings ops w c name da =
           Inr (da, Some (Error ''config not found''))"
  using assms
  by (auto simp: Client_GetConfigString_def Client_GetConfigInt_def Client_GetConfigFloat_def
        Client_GetConfigArrayOfStrings_def split: prod.splits)

text \<open>The loop over the elements: all of them strings, or one that is not.\<close>

lemma strings_loop_all: "strings_loop (map VString ss) out dv = (out @ ss, None)"
  by (induction ss arbitrary: out) simp_all

lemma strings_loop_bad:
  "\<exists>x\<in>set vs. \<forall>s. x \<noteq> VString s \<Longrightarrow>
     strings_loop vs out dv = (dv, Some (Error ''config is not an array of strings''))"
  by (induction vs arbitrary: out) (auto split: any_value.splits)

lemma all_strings_map: "(\<forall>x\<in>set vs. \<exists>s. x = VString s) \<Longrightarrow> \<exists>ss. vs = map VString ss"
proof (induction vs)
  case Nil
  then show ?case by simp
next
  case (Cons v vs)
  then obtain s ss where "v = VString s" "vs = map VString ss" by auto
  then have "v # vs = map VString (s # ss)" by simp
  then show ?case by (rule exI [of _ "s # ss"])
qed

lemma not_all_strings_mixed: "[VString ''a'', VString ''b'', VInt 3] \<noteq> map VString ss"
  by (auto simp: Cons_eq_map_conv)

text \<open>
  One \<^verbatim>\<open>select\<close> changes neither the number of goroutines and clients nor the set of
  cancelled contexts, and it changes goroutine \<open>i\<close> only by letting it return.
\<close>

lemma refresh_select_frame:
  assumes "i < length (goroutines w)" and "g_client (goroutines w ! i) < length (heap w)"
  shows "length (goroutines (refresh_select ops i sc w)) = length (goroutines w)"
    and "length (heap (refresh_select ops i sc w)) = length (heap w)"
    and "cancelled (refresh_select ops i sc w) = cancelled w"
    and "goroutines (refresh_select ops i sc w) ! i =
           (if g_status (goroutines w ! i) = AtSelect \<and> sc = CtxDone
               \<and> ctx_Done w (g_ctx (goroutines w ! i))
            then (goroutines w ! i)\<lparr>g_status := Returned\<rparr> else goroutines w ! i)"
  using assms
  by (auto simp: refresh_select_def Let_def deref_def Repository_Refresh_def logrus_Error_def
        split: select_case.splits prod.splits option.splits)

lemma ctx_Done_cong: "cancelled w' = cancelled w \<Longrightarrow> ctx_Done w' c = ctx_Done w c"
  by (simp add: ctx_Done_def)

lemma refresh_run_not_selecting:
  "i < length (goroutines w) \<Longrightarrow> g_status (goroutines w ! i) \<noteq> AtSelect \<Longrightarrow>
     refresh_run ops i scs w = w"
  by (induction scs) (simp_all add: refresh_run_def refresh_select_def)

lemma refresh_run_status:
  assumes "i < length (goroutines w)" and "g_client (goroutines w ! i) < length (heap w)"
    and "g_status (goroutines w ! i) = AtSelect"
  shows "goroutines (refresh_run ops i scs w) ! i =
           (if CtxDone \<in> set scs \<and> ctx_Done w (g_ctx (goroutines w ! i))
            then (goroutines w ! i)\<lparr>g_status := Returned\<rparr> else goroutines w ! i)"
  using assms
proof (induction scs arbitrary: w)
  case Nil
  then show ?case by (simp add: refresh_run_def)
next
  case (Cons sc scs)
  let ?g = "goroutines w ! i"
  let ?w = "refresh_select ops i sc w"
  note fr = refresh_select_frame [OF Cons.prems(1,2), of ops sc]
  have run: "refresh_run ops i (sc # scs) w = refresh_run ops i scs ?w"
    by (simp add: refresh_run_def)
  show ?case
  proof (cases "sc = CtxDone \<and> ctx_Done w (g_ctx ?g)")
    case True
    with fr(4) Cons.prems(3) have g': "goroutines ?w ! i = ?g\<lparr>g_status := Returned\<rparr>"
      by simp
    then have "g_status (goroutines ?w ! i) \<noteq> AtSelect" by simp
    with fr(1) Cons.prems(1) have "refresh_run ops i scs ?w = ?w"
      by (simp add: refresh_run_not_selecting)
    with run g' True show ?thesis by simp
  next
    case False
    with fr(4) have g': "goroutines ?w ! i = ?g" by auto
    have "goroutines (refresh_run ops i scs ?w) ! i =
            (if CtxDone \<in> set scs \<and> ctx_Done ?w (g_ctx (goroutines ?w ! i))
             then (goroutines ?w ! i)\<lparr>g_status := Returned\<rparr> else goroutines ?w ! i)"
      using Cons.prems fr(1,2) g' by (intro Cons.IH) simp_all
    moreover have "ctx_Done ?w (g_ctx ?g) = ctx_Done w (g_ctx ?g)"
      using fr(3) by (rule ctx_Done_cong)
    ultimately show ?thesis using run g' False by auto
  qed
qed

section \<open>Construction\<close>

text \<open>
  C1. \<^verbatim>\<open>NewClient\<close> returns a nil client exactly when the one \<open>Refresh\<close> it performs
  returns an error; the error it returns is that of \<open>Refresh\<close>; it starts no goroutine
  exactly in that case and one goroutine otherwise; and when \<open>Refresh\<close> succeeds it returns
  the pointer to the new client, whose backend has been refreshed once. Nothing is assumed
  of the backend's later \<open>Refresh\<close> calls.
\<close>

theorem NewClient_fails_iff_initial_Refresh_fails:
  "(fst (snd (NewClient ops w c r d)) = None) = (fst (Refresh ops r) \<noteq> None)
   \<and> snd (snd (NewClient ops w c r d)) = fst (Refresh ops r)
   \<and> (goroutines (fst (NewClient ops w c r d)) = goroutines w) = (fst (Refresh ops r) \<noteq> None)
   \<and> length (goroutines (fst (NewClient ops w c r d))) =
       (if fst (Refresh ops r) = None then Suc (length (goroutines w))
        else length (goroutines w))
   \<and> (fst (snd (NewClient ops w c r d)) = Some (length (heap w))) = (fst (Refresh ops r) = None)
   \<and> heap (fst (NewClient ops w c r d)) =
       heap w @ [\<lparr>Repository = snd (Refresh ops r), RefreshInterval = d, isClosed = False,
                  cancel = next_ctx w\<rparr>]"
  by (auto simp: NewClient_eq split: prod.splits option.splits)

text \<open>
  A backend that fails from its second \<open>Refresh\<close> on still gives a client and one
  goroutine; a backend that fails on its first \<open>Refresh\<close> gives no client and no goroutine.
\<close>

theorem NewClient_fails_iff_initial_Refresh_fails_witness:
  "fst (Refresh flaky_ops (0, demo_snapshot)) = None
   \<and> fst (Refresh flaky_ops (1, demo_snapshot)) \<noteq> None
   \<and> snd (NewClient flaky_ops init_world [] (0, demo_snapshot) 10) = (Some 0, None)
   \<and> length (goroutines (fst (NewClient flaky_ops init_world [] (0, demo_snapshot) 10))) = 1
   \<and> fst (Refresh broken_ops (0, demo_snapshot)) \<noteq> None
   \<and> snd (NewClient broken_ops init_world [] (0, demo_snapshot) 10) =
       (None, Some (Error ''refresh failed''))
   \<and> goroutines (fst (NewClient broken_ops init_world [] (0, demo_snapshot) 10)) = []"
  using NewClient_fails_iff_initial_Refresh_fails
          [of flaky_ops init_world "[]" "(0, demo_snapshot)" 10]
    NewClient_fails_iff_initial_Refresh_fails
          [of broken_ops init_world "[]" "(0, demo_snapshot)" 10]
  by (simp add: flaky_ops_def broken_ops_def stub_Refresh init_world_def NewClient_eq)

text \<open>
  C10. When the initial \<open>Refresh\<close> fails, \<^verbatim>\<open>NewClient\<close> leaves the package variable
  \<^verbatim>\<open>defaultClient\<close> as it was, nil or a client registered earlier, and every
  package-level accessor answers after the failed construction as it did before it.
\<close>

theorem NewClient_failure_keeps_defaultClient:
  assumes "fst (Refresh ops r) \<noteq> None"
  shows "defaultClient (fst (NewClient ops w c r d)) = defaultClient w
       \<and> ((case defaultClient w of None \<Rightarrow> True | Some a \<Rightarrow> a < length (heap w)) \<longrightarrow>
            GetConfig ops' y (fst (NewClient ops w c r d)) name data dv m =
              GetConfig ops' y w name data dv m
          \<and> GetConfigString ops' (fst (NewClient ops w c r d)) name ds =
              GetConfigString ops' w name ds
          \<and> GetConfigInt ops' (fst (NewClient ops w c r d)) name di =
              GetConfigInt ops' w name di
          \<and> GetConfigFloat ops' (fst (NewClient ops w c r d)) name df =
              GetConfigFloat ops' w name df
          \<and> GetConfigArrayOfStrings ops' (fst (NewClient ops w c r d)) name da =
              GetConfigArrayOfStrings ops' w name da)"
proof -
  have dc: "defaultClient (fst (NewClient ops w c r d)) = defaultClient w"
    using assms by (auto simp: NewClient_eq split: prod.splits option.splits)
  show ?thesis
    using dc deref_NewClient_failure [OF assms, where p = "defaultClient w" and w = w]
    by (simp add: GetConfig_def GetConfigString_def GetConfigInt_def GetConfigFloat_def
          GetConfigArrayOfStrings_def Client_GetConfig_def Client_GetConfigString_def
          Client_GetConfigInt_def Client_GetConfigFloat_def Client_GetConfigArrayOfStrings_def)
qed

text \<open>
  After one successful construction, a second one whose \<open>Refresh\<close> fails leaves the first
  client registered, and \<^verbatim>\<open>GetConfigString\<close> still reads the first client's backend.
\<close>

theorem NewClient_failure_keeps_defaultClient_witness:
  "fst (Refresh flaky_ops (1, demo_snapshot)) \<noteq> None
   \<and> defaultClient open_world = Some 0
   \<and> defaultClient (fst (NewClient flaky_ops open_world [] (1, demo_snapshot) 10)) = Some 0
   \<and> GetConfigString good_ops (fst (NewClient flaky_ops open_world [] (1, demo_snapshot) 10))
        ''name'' ''d'' = Inr (''svc'', None)"
proof -
  have f: "fst (Refresh flaky_ops (1, demo_snapshot)) \<noteq> None"
    by (simp add: flaky_ops_def stub_Refresh)
  have g: "GetConfigString good_ops open_world ''name'' ''d'' = Inr (''svc'', None)"
    by (simp add: GetConfigString_def Client_GetConfigString_def deref_def open_world_eq
          good_GetData demo_lookups)
  have wf: "case defaultClient open_world of None \<Rightarrow> True
            | Some a \<Rightarrow> a < length (heap open_world)"
    by (simp add: open_world_eq)
  show ?thesis
    using f g wf
      NewClient_failure_keeps_defaultClient
        [OF f, where w = open_world and c = "[]" and d = 10 and ops' = good_ops
           and name = "''name''" and ds = "''d''" and y = stub_yaml and data = "Ptr 0"
           and dv = "VInt 5" and m = "[VInt 0]" and di = 5 and df = 0 and da = "[]"]
    by (simp add: open_world_eq)
qed

section \<open>The package-level accessors before any construction\<close>

text \<open>
  C9. While \<^verbatim>\<open>defaultClient\<close> is nil, as it is before any client has been constructed,
  each of the five package-level accessors panics with a nil pointer dereference (reading
  \<^verbatim>\<open>c.isClosed\<close>); none of them returns an error value.
\<close>

theorem static_accessors_nil_defaultClient:
  "defaultClient w = None \<Longrightarrow>
     GetConfig ops y w name data dv m = Inl NilPointerDereference
   \<and> GetConfigString ops w name ds = Inl NilPointerDereference
   \<and> GetConfigInt ops w name di = Inl NilPointerDereference
   \<and> GetConfigFloat ops w name df = Inl NilPointerDereference
   \<and> GetConfigArrayOfStrings ops w name da = Inl NilPointerDereference"
  by (simp add: GetConfig_def GetConfigString_def GetConfigInt_def GetConfigFloat_def
      GetConfigArrayOfStrings_def Client_GetConfig_def Client_GetConfigString_def
      Client_GetConfigInt_def Client_GetConfigFloat_def Client_GetConfigArrayOfStrings_def
      deref_def)

text \<open>
  The initial state of the process is such a state, and so is the state after a
  construction that failed.
\<close>

theorem static_accessors_nil_defaultClient_witness:
  "defaultClient (init_world :: (nat \<times> (string \<times> any_value) list) world) = None
   \<and> GetConfig good_ops stub_yaml init_world ''port'' (Ptr 0) (VInt 5) [VInt 0] =
       Inl NilPointerDereference
   \<and> GetConfigString good_ops init_world ''port'' ''d'' = Inl NilPointerDereference
   \<and> GetConfigInt good_ops init_world ''port'' 5 = Inl NilPointerDereference
   \<and> GetConfigFloat good_ops init_world ''port'' 0 = Inl NilPointerDereference
   \<and> GetConfigArrayOfStrings good_ops init_world ''port'' [] = Inl NilPointerDereference
   \<and> defaultClient (fst (NewClient broken_ops init_world [] (0, demo_snapshot) 10)) = None
   \<and> GetConfigInt good_ops (fst (NewClient broken_ops init_world [] (0, demo_snapshot) 10))
        ''port'' 5 = Inl NilPointerDereference"
proof -
  let ?w = "fst (NewClient broken_ops init_world [] (0, demo_snapshot) 10)"
  have h: "defaultClient (init_world :: (nat \<times> (string \<times> any_value) list) world) = None"
    by (simp add: init_world_def)
  have k: "defaultClient ?w = None"
    by (simp add: NewClient_eq broken_ops_def stub_Refresh init_world_def)
  show ?thesis
    using h k
      static_accessors_nil_defaultClient
        [OF h, of good_ops stub_yaml "''port''" "Ptr 0" "VInt 5" "[VInt 0]" "''d''" 5 0 "[]"]
      static_accessors_nil_defaultClient
        [OF k, of good_ops stub_yaml "''port''" "Ptr 0" "VInt 5" "[VInt 0]" "''d''" 5 0 "[]"]
    by simp
qed

section \<open>The typed accessors\<close>

text \<open>
  C2. After \<^verbatim>\<open>Close\<close>, the four accessors that return a value return the default and
  the error "client is closed" (\<open>closed_scalar_accessors\<close> above). \<^verbatim>\<open>GetConfig\<close>
  returns that error too, but its default reaches the caller nowhere: called with a pointer
  to a variable holding 0 and the default 5, on a closed client whose backend holds the key,
  it leaves the variable at 0.
\<close>

theorem GetConfig_after_Close_default_not_delivered:
  "Close open_world (Some 0) = Inr closed_world
   \<and> GetData good_ops (Repository (heap closed_world ! 0)) ''port'' = (VInt 8080, True)
   \<and> Client_GetConfig good_ops stub_yaml closed_world (Some 0) ''port'' (Ptr 0) (VInt 5) [VInt 0] =
       Inr (Some (Error ''client is closed''), [VInt 0])"
  by (simp add: Client_GetConfig_def deref_closed Close_open_world)
     (simp add: closed_world_eq good_GetData demo_lookups)

text \<open>
  C4. On an open client and a key the backend does not have, the four accessors that return
  a value return the default and the error "config not found"
  (\<open>not_found_scalar_accessors\<close> above). \<^verbatim>\<open>GetConfig\<close> returns that error too, but
  its default reaches the caller nowhere: called with a pointer to a variable holding 0 and
  the default 5, it leaves the variable at 0.
\<close>

theorem GetConfig_not_found_default_not_delivered:
  "GetData good_ops (Repository (heap open_world ! 0)) ''absent'' = (VNil, False)
   \<and> Client_GetConfig good_ops stub_yaml open_world (Some 0) ''absent'' (Ptr 0) (VInt 5) [VInt 0] =
       Inr (Some (Error ''config not found''), [VInt 0])"
  by (simp add: Client_GetConfig_def deref_open good_GetData demo_lookups)
     (simp add: open_world_eq good_GetData demo_lookups)

text \<open>
  C3, as amended. On a client that is not closed, for a key the backend has: when the stored
  value is not a string, \<^verbatim>\<open>GetConfigString\<close> returns the default and "config is not a
  string"; when it is not an \<^verbatim>\<open>int\<close>, \<^verbatim>\<open>GetConfigInt\<close> returns the default and
  "config is not an int64"; when it is not a \<^verbatim>\<open>float64\<close>, \<^verbatim>\<open>GetConfigFloat\<close>
  returns the default and "config is not an int64"; when it is not a slice of strings only,
  \<^verbatim>\<open>GetConfigArrayOfStrings\<close> returns the default and "config is not an array of
  strings". The value returned is the default itself, whatever it is.
\<close>

theorem type_mismatch_returns_default:
  assumes "deref w c = Inr cl" and "\<not> isClosed cl"
    and "GetData ops (Repository cl) name = (v, True)"
  shows "((\<forall>s. v \<noteq> VString s) \<longrightarrow>
            Client_GetConfigString ops w c name ds =
              Inr (ds, Some (Error ''config is not a string'')))
       \<and> ((\<forall>i. v \<noteq> VInt i) \<longrightarrow>
            Client_GetConfigInt ops w c name di =
              Inr (di, Some (Error ''config is not an int64'')))
       \<and> ((\<forall>f. v \<noteq> VFloat64 f) \<longrightarrow>
            Client_GetConfigFloat ops w c name df =
              Inr (df, Some (Error ''config is not an int64'')))
       \<and> ((\<forall>ss. v \<noteq> VSlice (map VString ss)) \<longrightarrow>
            Client_GetConfigArrayOfStrings ops w c name da =
              Inr (da, Some (Error ''config is not an array of strings'')))"
proof (intro conjI impI)
  assume "\<forall>s. v \<noteq> VString s"
  with assms show "Client_GetConfigString ops w c name ds =
      Inr (ds, Some (Error ''config is not a string''))"
    by (cases v) (simp_all add: Client_GetConfigString_def)
next
  assume "\<forall>i. v \<noteq> VInt i"
  with assms show "Client_GetConfigInt ops w c name di =
      Inr (di, Some (Error ''config is not an int64''))"
    by (cases v) (simp_all add: Client_GetConfigInt_def)
next
  assume "\<forall>f. v \<noteq> VFloat64 f"
  with assms show "Client_GetConfigFloat ops w c name df =
      Inr (df, Some (Error ''config is not an int64''))"
    by (cases v) (simp_all add: Client_GetConfigFloat_def)
next
  assume a: "\<forall>ss. v \<noteq> VSlice (map VString ss)"
  show "Client_GetConfigArrayOfStrings ops w c name da =
      Inr (da, Some (Error ''config is not an array of strings''))"
  proof (cases v)
    case (VSlice xs)
    with a have "\<forall>ss. xs \<noteq> map VString ss" by simp
    then have "\<exists>x\<in>set xs. \<forall>s. x \<noteq> VString s" using all_strings_map by blast
    then show ?thesis using assms VSlice
      by (simp add: Client_GetConfigArrayOfStrings_def strings_loop_bad)
  qed (use assms in \<open>simp_all add: Client_GetConfigArrayOfStrings_def\<close>)
qed

text \<open>
  The key \<open>mixed\<close> of the open client holds the slice \<open>["a", "b", 3]\<close>, which matches none
  of the four accessors.
\<close>

theorem type_mismatch_returns_default_witness:
  "Client_GetConfigString good_ops open_world (Some 0) ''mixed'' ''d'' =
     Inr (''d'', Some (Error ''config is not a string''))
   \<and> Client_GetConfigInt good_ops open_world (Some 0) ''mixed'' 5 =
     Inr (5, Some (Error ''config is not an int64''))
   \<and> Client_GetConfigFloat good_ops open_world (Some 0) ''mixed'' 1 =
     Inr (1, Some (Error ''config is not an int64''))
   \<and> Client_GetConfigArrayOfStrings good_ops open_world (Some 0) ''mixed'' [''z''] =
     Inr ([''z''], Some (Error ''config is not an array of strings''))"
proof -
  let ?cl = "\<lparr>Repository = (Suc 0, demo_snapshot), RefreshInterval = 10, isClosed = False,
              cancel = 0\<rparr>"
  have a: "deref open_world (Some 0) = Inr ?cl" by (simp add: deref_open)
  have b: "\<not> isClosed ?cl" by simp
  have c: "GetData good_ops (Repository ?cl) ''mixed'' =
             (VSlice [VString ''a'', VString ''b'', VInt 3], True)"
    by (simp add: good_GetData demo_lookups)
  show ?thesis
    using type_mismatch_returns_default [OF a b c, of "''d''" 5 1 "[''z'']"]
      not_all_strings_mixed
    by simp
qed

text \<open>
  C3 as stated has no condition on the client. On a closed client, a key whose stored value
  is a string makes \<^verbatim>\<open>GetConfigInt\<close> return the error "client is closed", not a
  type-mismatch error.
\<close>

theorem type_mismatch_closed_client_counterexample:
  "GetData good_ops (Repository (heap closed_world ! 0)) ''name'' = (VString ''svc'', True)
   \<and> Client_GetConfigInt good_ops closed_world (Some 0) ''name'' 5 =
       Inr (5, Some (Error ''client is closed''))
   \<and> Client_GetConfigInt good_ops closed_world (Some 0) ''name'' 5 \<noteq>
       Inr (5, Some (Error ''config is not an int64''))"
  by (simp add: Client_GetConfigInt_def deref_def closed_world_eq good_GetData demo_lookups)

text \<open>
  C5, as amended. On a client that is not closed, for a key whose stored value is a slice:
  when every element is a string, \<^verbatim>\<open>GetConfigArrayOfStrings\<close> returns all of them, in
  order, and no error; when some element is not a string, it returns the default and an
  error, whatever strings came before that element.
\<close>

theorem GetConfigArrayOfStrings_all_or_nothing:
  assumes "deref w c = Inr cl" and "\<not> isClosed cl"
    and "GetData ops (Repository cl) name = (VSlice xs, True)"
  shows "(xs = map VString ss \<longrightarrow>
            Client_GetConfigArrayOfStrings ops w c name dv = Inr (ss, None))
       \<and> ((\<exists>x\<in>set xs. \<forall>s. x \<noteq> VString s) \<longrightarrow>
            Client_GetConfigArrayOfStrings ops w c name dv =
              Inr (dv, Some (Error ''config is not an array of strings'')))"
  using assms
  by (auto simp: Client_GetConfigArrayOfStrings_def strings_loop_all strings_loop_bad
        simp del: strings_loop.simps)

text \<open>
  On the open client, the key \<open>tags\<close> holds \<open>["a", "b"]\<close> and the key \<open>mixed\<close> holds
  \<open>["a", "b", 3]\<close>.
\<close>

theorem GetConfigArrayOfStrings_all_or_nothing_witness:
  "Client_GetConfigArrayOfStrings good_ops open_world (Some 0) ''tags'' [''z''] =
     Inr ([''a'', ''b''], None)
   \<and> Client_GetConfigArrayOfStrings good_ops open_world (Some 0) ''mixed'' [''z''] =
     Inr ([''z''], Some (Error ''config is not an array of strings''))"
proof -
  let ?cl = "\<lparr>Repository = (Suc 0, demo_snapshot), RefreshInterval = 10, isClosed = False,
              cancel = 0\<rparr>"
  have a: "deref open_world (Some 0) = Inr ?cl" by (simp add: deref_open)
  have b: "\<not> isClosed ?cl" by simp
  have c: "GetData good_ops (Repository ?cl) ''tags'' =
             (VSlice [VString ''a'', VString ''b''], True)"
    by (simp add: good_GetData demo_lookups)
  have d: "GetData good_ops (Repository ?cl) ''mixed'' =
             (VSlice [VString ''a'', VString ''b'', VInt 3], True)"
    by (simp add: good_GetData demo_lookups)
  show ?thesis
    using GetConfigArrayOfStrings_all_or_nothing [OF a b c, of "[''a'', ''b'']" "[''z'']"]
      GetConfigArrayOfStrings_all_or_nothing [OF a b d, of "[]" "[''z'']"]
    by simp
qed

text \<open>
  C5 as stated has no condition on the client. On a closed client, a stored slice of strings
  only is not returned: the accessor returns the default and the error "client is closed".
\<close>

theorem GetConfigArrayOfStrings_closed_client_counterexample:
  "GetData good_ops (Repository (heap closed_world ! 0)) ''tags'' =
       (VSlice (map VString [''a'', ''b'']), True)
   \<and> Client_GetConfigArrayOfStrings good_ops closed_world (Some 0) ''tags'' [''z''] =
       Inr ([''z''], Some (Error ''client is closed''))
   \<and> Client_GetConfigArrayOfStrings good_ops closed_world (Some 0) ''tags'' [''z''] \<noteq>
       Inr ([''a'', ''b''], None)"
  by (simp add: Client_GetConfigArrayOfStrings_def deref_def closed_world_eq good_GetData
        demo_lookups)

text \<open>
  C6, as amended. \<^verbatim>\<open>GetConfigInt\<close> returns a value and no error only when the client
  is not closed and the stored value has the dynamic type \<^verbatim>\<open>int\<close> (the value returned
  is the stored one); and on a client that is not closed, for every stored value of dynamic
  type \<^verbatim>\<open>float64\<close>, whatever its bits, it returns the default and the error "config is
  not an int64".
\<close>

theorem GetConfigInt_exact_int:
  "(Client_GetConfigInt ops w c name dv = Inr (x, None) \<longrightarrow>
      (\<exists>cl. deref w c = Inr cl \<and> \<not> isClosed cl
            \<and> GetData ops (Repository cl) name = (VInt x, True)))
   \<and> (deref w c = Inr cl \<and> \<not> isClosed cl
        \<and> GetData ops (Repository cl) name = (VFloat64 f, True) \<longrightarrow>
        Client_GetConfigInt ops w c name dv = Inr (dv, Some (Error ''config is not an int64'')))"
  by (auto simp: Client_GetConfigInt_def
        split: sum.splits prod.splits if_splits any_value.splits)

text \<open>
  On the open client, the key \<open>port\<close> holds the \<^verbatim>\<open>int\<close> 8080 and the key \<open>ratio\<close>
  holds the \<^verbatim>\<open>float64\<close> 2.0, an integral value.
\<close>

theorem GetConfigInt_exact_int_witness:
  "(\<exists>cl. deref open_world (Some 0) = Inr cl \<and> \<not> isClosed cl
        \<and> GetData good_ops (Repository cl) ''port'' = (VInt 8080, True))
   \<and> Client_GetConfigInt good_ops open_world (Some 0) ''port'' 5 = Inr (8080, None)
   \<and> Client_GetConfigInt good_ops open_world (Some 0) ''ratio'' 5 =
       Inr (5, Some (Error ''config is not an int64''))"
proof -
  let ?cl = "\<lparr>Repository = (Suc 0, demo_snapshot), RefreshInterval = 10, isClosed = False,
              cancel = 0\<rparr>"
  have a: "deref open_world (Some 0) = Inr ?cl" by (simp add: deref_open)
  have p: "Client_GetConfigInt good_ops open_world (Some 0) ''port'' 5 = Inr (8080, None)"
    by (simp add: Client_GetConfigInt_def deref_open good_GetData demo_lookups)
  have r: "GetData good_ops (Repository ?cl) ''ratio'' = (VFloat64 0x4000000000000000, True)"
    by (simp add: good_GetData demo_lookups)
  show ?thesis
    using GetConfigInt_exact_int
            [of good_ops open_world "Some 0" "''port''" 5 8080 ?cl "0x4000000000000000"]
      GetConfigInt_exact_int
            [of good_ops open_world "Some 0" "''ratio''" 5 0 ?cl "0x4000000000000000"]
      a p r
    by simp
qed

text \<open>
  C6 as stated has no condition on the client. On a closed client, a stored
  \<^verbatim>\<open>float64\<close> makes \<^verbatim>\<open>GetConfigInt\<close> return the error "client is closed", not a
  type-mismatch error.
\<close>

theorem GetConfigInt_float_closed_client_counterexample:
  "GetData good_ops (Repository (heap closed_world ! 0)) ''ratio'' =
       (VFloat64 0x4000000000000000, True)
   \<and> Client_GetConfigInt good_ops closed_world (Some 0) ''ratio'' 5 =
       Inr (5, Some (Error ''client is closed''))
   \<and> Client_GetConfigInt good_ops closed_world (Some 0) ''ratio'' 5 \<noteq>
       Inr (5, Some (Error ''config is not an int64''))"
  by (simp add: Client_GetConfigInt_def deref_def closed_world_eq good_GetData demo_lookups)

text \<open>
  C7, as amended. On the failure paths of \<^verbatim>\<open>Client.GetConfig\<close> for a closed client, a
  key not found and a marshal error, the variables of the caller are left as they were. On
  the path of an unmarshal error they are as \<^verbatim>\<open>yaml.Unmarshal\<close> left them. On every
  path the result is the same for any two default values: the assignment
  \<^verbatim>\<open>data = defaultValue\<close> rebinds the local parameter only, and the default is written
  to no variable of the caller.
\<close>

theorem GetConfig_failure_frame:
  assumes "deref w c = Inr cl"
  shows "(isClosed cl \<longrightarrow>
            Client_GetConfig ops y w c name data dv m =
              Inr (Some (Error ''client is closed''), m))
       \<and> (\<not> isClosed cl \<and> \<not> snd (GetData ops (Repository cl) name) \<longrightarrow>
            Client_GetConfig ops y w c name data dv m =
              Inr (Some (Error ''config not found''), m))
       \<and> (\<not> isClosed cl \<and> GetData ops (Repository cl) name = (config, True)
            \<and> Marshal y config = (b, Some e) \<longrightarrow>
            Client_GetConfig ops y w c name data dv m = Inr (Some e, m))
       \<and> (\<not> isClosed cl \<and> GetData ops (Repository cl) name = (config, True)
            \<and> Marshal y config = (b, None) \<and> Unmarshal y b data m = (Some e, m') \<longrightarrow>
            Client_GetConfig ops y w c name data dv m = Inr (Some e, m'))
       \<and> Client_GetConfig ops y w c name data dv m =
           Client_GetConfig ops y w c name data dv' m"
  using assms
  by (auto simp: Client_GetConfig_def split: prod.splits option.splits)

text \<open>
  The four failure paths, each with the destination a struct of two integer fields, both 0,
  and the default 5: a closed client; a missing key; a library whose \<open>Marshal\<close> fails; and
  the key \<open>limits\<close>, whose field \<open>b\<close> is a string.
\<close>

theorem GetConfig_failure_frame_witness:
  "Client_GetConfig good_ops stub_yaml closed_world (Some 0) ''limits'' (Ptr 0) (VInt 5)
      [VMap [(''a'', VInt 0), (''b'', VInt 0)]]
     = Inr (Some (Error ''client is closed''), [VMap [(''a'', VInt 0), (''b'', VInt 0)]])
   \<and> Client_GetConfig good_ops stub_yaml open_world (Some 0) ''absent'' (Ptr 0) (VInt 5)
      [VMap [(''a'', VInt 0), (''b'', VInt 0)]]
     = Inr (Some (Error ''config not found''), [VMap [(''a'', VInt 0), (''b'', VInt 0)]])
   \<and> Client_GetConfig good_ops
        \<lparr>Marshal = (\<lambda>v. (VNil, Some (Error ''yaml: cannot marshal''))),
         Unmarshal = stub_Unmarshal\<rparr>
        open_world (Some 0) ''limits'' (Ptr 0) (VInt 5) [VMap [(''a'', VInt 0), (''b'', VInt 0)]]
     = Inr (Some (Error ''yaml: cannot marshal''), [VMap [(''a'', VInt 0), (''b'', VInt 0)]])
   \<and> Client_GetConfig good_ops stub_yaml open_world (Some 0) ''limits'' (Ptr 0) (VInt 5)
      [VMap [(''a'', VInt 0), (''b'', VInt 0)]]
     = Inr (Some (Error ''yaml: unmarshal errors''), [VMap [(''a'', VInt 1), (''b'', VInt 0)]])"
proof -
  let ?op = "\<lparr>Repository = (Suc 0, demo_snapshot), RefreshInterval = 10, isClosed = False,
              cancel = 0\<rparr>"
  let ?cl = "\<lparr>Repository = (Suc 0, demo_snapshot), RefreshInterval = 10, isClosed = True,
              cancel = 0\<rparr>"
  let ?m = "[VMap [(''a'', VInt 0), (''b'', VInt 0)]]"
  let ?bad = "\<lparr>Marshal = (\<lambda>v. (VNil, Some (Error ''yaml: cannot marshal''))),
               Unmarshal = stub_Unmarshal\<rparr>"
  have a: "deref open_world (Some 0) = Inr ?op" by (simp add: deref_open)
  have b: "deref closed_world (Some 0) = Inr ?cl" by (simp add: deref_closed)
  have g: "GetData good_ops (Repository ?op) ''limits'' =
             (VMap [(''a'', VInt 1), (''b'', VString ''x'')], True)"
    by (simp add: good_GetData demo_lookups)
  have n: "\<not> snd (GetData good_ops (Repository ?op) ''absent'')"
    by (simp add: good_GetData demo_lookups)
  have u: "Unmarshal stub_yaml (VMap [(''a'', VInt 1), (''b'', VString ''x'')]) (Ptr 0) ?m =
             (Some (Error ''yaml: unmarshal errors''), [VMap [(''a'', VInt 1), (''b'', VInt 0)]])"
    by (simp add: stub_yaml_def stub_Unmarshal_def)
  have mk: "Marshal stub_yaml (VMap [(''a'', VInt 1), (''b'', VString ''x'')]) =
             (VMap [(''a'', VInt 1), (''b'', VString ''x'')], None)"
    by (simp add: stub_yaml_def)
  show ?thesis
    using GetConfig_failure_frame [OF b, where ops = good_ops and y = stub_yaml
                and name = "''limits''" and data = "Ptr 0" and dv = "VInt 5" and m = ?m]
      GetConfig_failure_frame [OF a, where ops = good_ops and y = stub_yaml
                and name = "''absent''" and data = "Ptr 0" and dv = "VInt 5" and m = ?m]
      GetConfig_failure_frame [OF a, where ops = good_ops and y = ?bad
                and name = "''limits''" and data = "Ptr 0" and dv = "VInt 5" and m = ?m
                and config = "VMap [(''a'', VInt 1), (''b'', VString ''x'')]"
                and b = VNil and e = "Error ''yaml: cannot marshal''"]
      GetConfig_failure_frame [OF a, where ops = good_ops and y = stub_yaml
                and name = "''limits''" and data = "Ptr 0" and dv = "VInt 5" and m = ?m
                and config = "VMap [(''a'', VInt 1), (''b'', VString ''x'')]"
                and b = "VMap [(''a'', VInt 1), (''b'', VString ''x'')]"
                and e = "Error ''yaml: unmarshal errors''"
                and m' = "[VMap [(''a'', VInt 1), (''b'', VInt 0)]]"]
      g n u mk
    by simp
qed

text \<open>
  C7 as stated includes the unmarshal error among the paths that leave the destination
  unchanged. With a decoder that, like yaml.v3, decodes what it can before it reports the
  error, the stored mapping \<open>{a: 1, b: "x"}\<close> decoded into a struct of two integer fields
  returns an error and leaves the field \<open>a\<close> of the caller's variable changed from 0 to 1.
\<close>

theorem GetConfig_unmarshal_error_writes_counterexample:
  "GetData good_ops (Repository (heap open_world ! 0)) ''limits'' =
       (VMap [(''a'', VInt 1), (''b'', VString ''x'')], True)
   \<and> Client_GetConfig good_ops stub_yaml open_world (Some 0) ''limits'' (Ptr 0) (VInt 5)
        [VMap [(''a'', VInt 0), (''b'', VInt 0)]]
     = Inr (Some (Error ''yaml: unmarshal errors''), [VMap [(''a'', VInt 1), (''b'', VInt 0)]])
   \<and> [VMap [(''a'', VInt 1), (''b'', VInt 0)]] \<noteq> [VMap [(''a'', VInt 0), (''b'', VInt 0)]]"
  by (simp add: Client_GetConfig_def deref_open good_GetData demo_lookups stub_yaml_def
        stub_Unmarshal_def)
     (simp add: open_world_eq good_GetData demo_lookups)

section \<open>The refresh goroutine\<close>

text \<open>
  The loop of \<^verbatim>\<open>refresh\<close>. For a goroutine blocked in its \<^verbatim>\<open>select\<close>, after any
  sequence of \<^verbatim>\<open>select\<close> cases and whatever \<open>Refresh\<close> returned at the ticks: while
  its context is not cancelled it is still blocked in the \<^verbatim>\<open>select\<close>, and once the
  context is cancelled it has returned as soon as the case \<^verbatim>\<open><-ctx.Done()\<close>, then
  ready, has been taken. A tick whose \<open>Refresh\<close> fails appends the error to the log. The
  ticker stays as \<^verbatim>\<open>time.NewTicker\<close> made it.
\<close>

lemma refresh_loop_exit:
  assumes "i < length (goroutines w)" and "g_client (goroutines w ! i) < length (heap w)"
    and "g_status (goroutines w ! i) = AtSelect"
  shows "g_status (goroutines (refresh_run ops i scs w) ! i) =
           (if CtxDone \<in> set scs \<and> ctx_Done w (g_ctx (goroutines w ! i))
            then Returned else AtSelect)
       \<and> g_ticker (goroutines (refresh_run ops i scs w) ! i) = g_ticker (goroutines w ! i)
       \<and> log (refresh_select ops i TickerC w) =
           (case fst (Refresh ops (Repository (heap w ! g_client (goroutines w ! i)))) of
              Some err \<Rightarrow> log w @ [(''error refreshing repository'', err)]
            | None \<Rightarrow> log w)"
  using assms refresh_run_status [OF assms, of ops scs]
  by (auto simp: refresh_select_def Let_def deref_def Repository_Refresh_def logrus_Error_def
        split: prod.splits option.splits)

text \<open>No failure of \<open>Refresh\<close> ends the loop: without cancellation it never returns.\<close>

lemma refresh_loop_survives_Refresh_errors:
  assumes "i < length (goroutines w)" and "g_client (goroutines w ! i) < length (heap w)"
    and "g_status (goroutines w ! i) = AtSelect"
    and "\<not> ctx_Done w (g_ctx (goroutines w ! i))"
  shows "g_status (goroutines (refresh_run ops i scs w) ! i) = AtSelect"
  using refresh_run_status [OF assms(1-3), of ops scs] assms(3,4) by simp

text \<open>
  Once the context is cancelled, the loop returns at the first \<^verbatim>\<open>select\<close> that takes
  the case \<^verbatim>\<open><-ctx.Done()\<close>, after any number of ticks.
\<close>

lemma refresh_loop_returns_when_cancelled:
  assumes "i < length (goroutines w)" and "g_client (goroutines w ! i) < length (heap w)"
    and "g_status (goroutines w ! i) = AtSelect"
    and "ctx_Done w (g_ctx (goroutines w ! i))"
  shows "g_status (goroutines (refresh_run ops i (replicate n TickerC @ [CtxDone]) w) ! i) =
           Returned"
  using refresh_run_status [OF assms(1-3), of ops "replicate n TickerC @ [CtxDone]"] assms(4)
  by simp

text \<open>
  With a backend whose every further \<open>Refresh\<close> fails, the goroutine of the open client is
  still in its \<^verbatim>\<open>select\<close> after two ticks, and each tick logs the error; the goroutine
  of the closed client returns.
\<close>

lemma refresh_loop_exit_example:
  "g_status (goroutines (refresh_run flaky_ops 0 [TickerC, CtxDone, TickerC] closed_world) ! 0)
     = Returned
   \<and> g_status (goroutines (refresh_run flaky_ops 0 [TickerC, CtxDone, TickerC] open_world) ! 0)
     = AtSelect
   \<and> log (refresh_select flaky_ops 0 TickerC open_world) =
        [(''error refreshing repository'', Error ''refresh failed'')]"
proof -
  have a: "0 < length (goroutines closed_world)"
    "g_client (goroutines closed_world ! 0) < length (heap closed_world)"
    "g_status (goroutines closed_world ! 0) = AtSelect"
    by (simp_all add: closed_world_eq)
  have b: "0 < length (goroutines open_world)"
    "g_client (goroutines open_world ! 0) < length (heap open_world)"
    "g_status (goroutines open_world ! 0) = AtSelect"
    by (simp_all add: open_world_eq)
  have c: "ctx_Done closed_world (g_ctx (goroutines closed_world ! 0))"
    "\<not> ctx_Done open_world (g_ctx (goroutines open_world ! 0))"
    by (simp_all add: closed_world_eq open_world_eq ctx_Done_def)
  have d: "fst (Refresh flaky_ops
                 (Repository (heap open_world ! g_client (goroutines open_world ! 0))))
             = Some (Error ''refresh failed'')"
    by (simp add: open_world_eq flaky_ops_def stub_Refresh)
  show ?thesis
    using refresh_loop_exit [OF a, of flaky_ops "[TickerC, CtxDone, TickerC]"]
      refresh_loop_exit [OF b, of flaky_ops "[TickerC, CtxDone, TickerC]"] c d
    by (simp add: open_world_eq)
qed

text \<open>
  C8. The loop is not ended by a failing \<open>Refresh\<close> and returns once its context is
  cancelled (the lemmas above), but it does not release its timer: \<^verbatim>\<open>refresh\<close> makes
  the ticker with \<^verbatim>\<open>time.NewTicker\<close> and returns without \<^verbatim>\<open>ticker.Stop\<close>. After
  \<^verbatim>\<open>Close\<close> on the client made by \<^verbatim>\<open>NewClient\<close>, the context of its goroutine is
  done; the goroutine goes through a tick, returns at the case \<^verbatim>\<open><-ctx.Done()\<close>, and
  its ticker has never been stopped.
\<close>

theorem refresh_returns_ticker_not_stopped:
  "Close open_world (Some 0) = Inr closed_world
   \<and> ctx_Done closed_world (g_ctx (goroutines closed_world ! 0))
   \<and> g_status (goroutines (refresh_run good_ops 0 [TickerC, CtxDone] closed_world) ! 0) =
       Returned
   \<and> g_ticker (goroutines (refresh_run good_ops 0 [TickerC, CtxDone] closed_world) ! 0) =
       Some \<lparr>period = 10, stopped = False\<rparr>"
  by (simp add: Close_open_world)
     (simp add: refresh_run_def refresh_select_def closed_world_eq ctx_Done_def deref_def
        Repository_Refresh_def good_ops_def stub_Refresh)

end
